theory Spec2Isabelle
  imports Complex_Main
begin

section \<open>VocaBoost backend: authentication and account lockout\<close>

text \<open>
  A shallow embedding of the authentication subsystem of the VocaBoost backend:
  \<^item> \<^verbatim>\<open>src/middleware/protection/loginAttempts.js\<close> (class \<^verbatim>\<open>LoginAttemptsMiddleware\<close>, the
    Lockout Guard),
  \<^item> \<^verbatim>\<open>src/controllers/authController.js\<close> (\<^verbatim>\<open>login\<close>, \<^verbatim>\<open>forgotPassword\<close>),
  \<^item> \<^verbatim>\<open>src/config/auth.js\<close> (the passport \<^verbatim>\<open>jwt\<close> and \<^verbatim>\<open>google\<close> strategies),
  \<^item> \<^verbatim>\<open>src/models/Profile.js\<close> (\<^verbatim>\<open>findById\<close>, \<^verbatim>\<open>create\<close>, \<^verbatim>\<open>update\<close>),
  \<^item> \<^verbatim>\<open>src/routes/authRoutes.js\<close> (the \<^verbatim>\<open>/login\<close> route: gate, then controller).

  Every \<^verbatim>\<open>async\<close> function is a state transformer: it takes the state of the external
  collaborator it talks to and returns its result together with the new state. A thrown
  exception is a value (\<open>Inl\<close>), so every \<^verbatim>\<open>try/catch\<close> of the source is a case
  distinction. \<^verbatim>\<open>Date.now()\<close> is the argument \<open>now\<close> (milliseconds); one request reads one
  clock value.
\<close>

subsection \<open>The cache store\<close>

text \<open>The lock record that \<^verbatim>\<open>lockAccount\<close> writes (\<^verbatim>\<open>lockData\<close>).\<close>

record lock_data =
  lockEmail :: string
  lockAttempts :: int
  lockIp :: string
  lockedAt :: int
  lockedUntil :: int
  lockReason :: string

text \<open>
  A cached value is a counter (written by \<^verbatim>\<open>incr\<close>) or a lock record (written by
  \<^verbatim>\<open>set\<close>). An entry carries its expiry time in milliseconds.
\<close>

datatype cache_value = Num int | Lock lock_data

record cache_store =
  entries :: "string \<rightharpoonup> (cache_value \<times> int)"
  faults :: "bool list"

datatype cache_error = CacheUnavailable | NotAnInteger

text \<open>
  Modelled from the spec: \<^verbatim>\<open>services/cacheService\<close> is not among the sources. The spec
  (sections 2, 3, 4.2 and 6) describes it as a key-value store with
  \<^verbatim>\<open>increment(key, ttlSeconds) -> int\<close>, \<^verbatim>\<open>get(key) -> value|absent\<close>,
  \<^verbatim>\<open>set(key, value, ttlSeconds)\<close> and \<^verbatim>\<open>delete(key)\<close>; the increment is atomic and applies
  the TTL only when it creates the key; an entry is absent once its TTL has elapsed.
  Any call may throw when the store is unreachable: \<open>faults\<close> is the schedule of the
  coming calls (\<open>True\<close>: the next call throws); the empty schedule is a healthy store.
\<close>

definition next_fails :: "cache_store \<Rightarrow> bool" where
  "next_fails c = (case faults c of [] \<Rightarrow> False | b # _ \<Rightarrow> b)"

definition consume :: "cache_store \<Rightarrow> cache_store" where
  "consume c = c\<lparr>faults := tl (faults c)\<rparr>"

definition lookup_live :: "cache_store \<Rightarrow> int \<Rightarrow> string \<Rightarrow> cache_value option" where
  "lookup_live c now k =
     (case entries c k of
        None \<Rightarrow> None
      | Some (v, expiry) \<Rightarrow> if now < expiry then Some v else None)"

definition cache_get :: "cache_store \<Rightarrow> int \<Rightarrow> string \<Rightarrow> (cache_error + cache_value option) \<times> cache_store" where
  "cache_get c now k =
     (if next_fails c then (Inl CacheUnavailable, consume c)
      else (Inr (lookup_live c now k), consume c))"

definition cache_set :: "cache_store \<Rightarrow> int \<Rightarrow> string \<Rightarrow> cache_value \<Rightarrow> nat \<Rightarrow> (cache_error + unit) \<times> cache_store" where
  "cache_set c now k v ttl =
     (if next_fails c then (Inl CacheUnavailable, consume c)
      else (Inr (), (consume c)\<lparr>entries := (entries c)(k \<mapsto> (v, now + int ttl * 1000))\<rparr>))"

definition cache_del :: "cache_store \<Rightarrow> string \<Rightarrow> (cache_error + unit) \<times> cache_store" where
  "cache_del c k =
     (if next_fails c then (Inl CacheUnavailable, consume c)
      else (Inr (), (consume c)\<lparr>entries := (entries c)(k := None)\<rparr>))"

definition cache_incr :: "cache_store \<Rightarrow> int \<Rightarrow> string \<Rightarrow> nat \<Rightarrow> (cache_error + int) \<times> cache_store" where
  "cache_incr c now k ttl =
     (if next_fails c then (Inl CacheUnavailable, consume c)
      else
        (case entries c k of
           None \<Rightarrow> (Inr 1, (consume c)\<lparr>entries := (entries c)(k \<mapsto> (Num 1, now + int ttl * 1000))\<rparr>)
         | Some (v, expiry) \<Rightarrow>
             if now < expiry then
               (case v of
                  Num n \<Rightarrow> (Inr (n + 1), (consume c)\<lparr>entries := (entries c)(k \<mapsto> (Num (n + 1), expiry))\<rparr>)
                | Lock d \<Rightarrow> (Inl NotAnInteger, consume c))
             else (Inr 1, (consume c)\<lparr>entries := (entries c)(k \<mapsto> (Num 1, now + int ttl * 1000))\<rparr>)))"

subsection \<open>The Lockout Guard (\<^verbatim>\<open>loginAttempts.js\<close>)\<close>

text \<open>The constructor's constants.\<close>

definition maxAttempts :: int where
  "maxAttempts = 5"

definition lockoutDuration :: nat where
  "lockoutDuration = 15 * 60"

definition attemptWindow :: nat where
  "attemptWindow = 15 * 60"

text \<open>The three key templates.\<close>

definition attemptsKey :: "string \<Rightarrow> string" where
  "attemptsKey email = ''login_attempts:'' @ email"

definition ipKey :: "string \<Rightarrow> string" where
  "ipKey ipAddress = ''login_attempts_ip:'' @ ipAddress"

definition lockKey :: "string \<Rightarrow> string" where
  "lockKey email = ''account_locked:'' @ email"

text \<open>The decimal numeral that a template literal prints for an integer.\<close>

definition digit_char :: "nat \<Rightarrow> char" where
  "digit_char d =
     (if d = 0 then CHR ''0'' else if d = 1 then CHR ''1'' else if d = 2 then CHR ''2''
      else if d = 3 then CHR ''3'' else if d = 4 then CHR ''4'' else if d = 5 then CHR ''5''
      else if d = 6 then CHR ''6'' else if d = 7 then CHR ''7'' else if d = 8 then CHR ''8''
      else CHR ''9'')"

fun show_nat :: "nat \<Rightarrow> string" where
  "show_nat n = (if n < 10 then [digit_char n] else show_nat (n div 10) @ [digit_char (n mod 10)])"

definition show_int :: "int \<Rightarrow> string" where
  "show_int i = (if i < 0 then ''-'' @ show_nat (nat (- i)) else show_nat (nat i))"

text \<open>
  \<^verbatim>\<open>lockAccount\<close>: writes the lock record with the lockout duration as TTL. The notification
  mail that follows is sent inside its own \<^verbatim>\<open>try/catch\<close> and returns nothing to the
  guard, so it leaves no trace in the cache; a failing \<^verbatim>\<open>set\<close> is caught and logged.
\<close>

definition lockAccount :: "cache_store \<Rightarrow> int \<Rightarrow> string \<Rightarrow> int \<Rightarrow> string \<Rightarrow> cache_store" where
  "lockAccount c now email attempts ipAddress =
     (let lockData = \<lparr> lockEmail = email, lockAttempts = attempts, lockIp = ipAddress,
                        lockedAt = now, lockedUntil = now + int lockoutDuration * 1000,
                        lockReason = show_int attempts @ '' failed login attempts'' \<rparr>
      in snd (cache_set c now (lockKey email) (Lock lockData) lockoutDuration))"

record track_result =
  attempts :: int
  ipAttempts :: int
  remainingAttempts :: int
  isLocked :: bool

definition trackFailedAttempt :: "cache_store \<Rightarrow> int \<Rightarrow> string \<Rightarrow> string \<Rightarrow> track_result \<times> cache_store" where
  "trackFailedAttempt c now email ipAddress =
     (case cache_incr c now (attemptsKey email) attemptWindow of
        (Inl err, c1) \<Rightarrow>
          (\<lparr> attempts = 0, ipAttempts = 0, remainingAttempts = maxAttempts, isLocked = False \<rparr>, c1)
      | (Inr n, c1) \<Rightarrow>
          (case cache_incr c1 now (ipKey ipAddress) attemptWindow of
             (Inl err, c2) \<Rightarrow>
               (\<lparr> attempts = 0, ipAttempts = 0, remainingAttempts = maxAttempts, isLocked = False \<rparr>, c2)
           | (Inr m, c2) \<Rightarrow>
               (\<lparr> attempts = n, ipAttempts = m, remainingAttempts = max 0 (maxAttempts - n),
                   isLocked = (n \<ge> maxAttempts) \<rparr>,
                if n \<ge> maxAttempts then lockAccount c2 now email n ipAddress else c2)))"

text \<open>
  \<^verbatim>\<open>clearAttempts\<close>: three deletions inside one \<^verbatim>\<open>try\<close>; the first one that throws ends
  the block.
\<close>

definition clearAttempts :: "cache_store \<Rightarrow> string \<Rightarrow> string \<Rightarrow> cache_store" where
  "clearAttempts c email ipAddress =
     (case cache_del c (attemptsKey email) of
        (Inl err, c1) \<Rightarrow> c1
      | (Inr u, c1) \<Rightarrow>
          (case cache_del c1 (ipKey ipAddress) of
             (Inl err, c2) \<Rightarrow> c2
           | (Inr u, c2) \<Rightarrow> snd (cache_del c2 (lockKey email))))"

text \<open>
  \<^verbatim>\<open>isAccountLocked\<close>. The source tests \<^verbatim>\<open>if (lockData)\<close>: a lock record is an object and
  truthy; a number is truthy unless it is 0, and then its \<^verbatim>\<open>reason\<close> and \<^verbatim>\<open>lockedUntil\<close>
  are \<^verbatim>\<open>undefined\<close> and \<^verbatim>\<open>Math.ceil(NaN) > 0\<close> is false. The quotient is taken in the
  reals: the operands are integers far below \<open>2 ^ 53\<close>, where the double division rounds
  to the same ceiling.
\<close>

datatype lock_status =
  NotLocked
| Locked (reason: "string option") (until: "int option") (remainingMinutes: int)

definition remainingTime :: "int \<Rightarrow> int \<Rightarrow> int" where
  "remainingTime lockedUntilMs now = \<lceil>real_of_int (lockedUntilMs - now) / 1000 / 60\<rceil>"

definition isAccountLocked :: "cache_store \<Rightarrow> int \<Rightarrow> string \<Rightarrow> lock_status \<times> cache_store" where
  "isAccountLocked c now email =
     (case cache_get c now (lockKey email) of
        (Inl err, c1) \<Rightarrow> (NotLocked, c1)
      | (Inr None, c1) \<Rightarrow> (NotLocked, c1)
      | (Inr (Some (Num n)), c1) \<Rightarrow>
          (if n = 0 then NotLocked else Locked None None 1, c1)
      | (Inr (Some (Lock lockData)), c1) \<Rightarrow>
          (Locked (Some (lockReason lockData)) (Some (lockedUntil lockData))
             (if remainingTime (lockedUntil lockData) now > 0
              then remainingTime (lockedUntil lockData) now else 1), c1))"

subsection \<open>Requests and responses\<close>

text \<open>
  The fields of an Express request that the login route reads: \<^verbatim>\<open>req.body.email\<close>,
  \<^verbatim>\<open>req.body.password\<close> (absent or a string), \<^verbatim>\<open>req.ip\<close>, and \<^verbatim>\<open>req.loginTracking\<close>, the
  pair of closures the gate attaches; both closures capture the same \<^verbatim>\<open>email\<close> and
  \<^verbatim>\<open>ipAddress\<close>, which is what the field holds here.
\<close>

record request =
  body_email :: "string option"
  body_password :: "string option"
  ip :: string
  loginTracking :: "(string \<times> string) option"

text \<open>JavaScript truthiness of an absent-or-string value: absent and the empty string are falsy.\<close>

definition truthy :: "string option \<Rightarrow> bool" where
  "truthy v = (case v of None \<Rightarrow> False | Some s \<Rightarrow> s \<noteq> [])"

text \<open>The profile row of the \<^verbatim>\<open>profiles\<close> table and the session token's claims.\<close>

record profile =
  pid :: string
  display_name :: "string option"
  role :: string
  account_status :: string
  last_seen_at :: "int option"

text \<open>
  Modelled from the spec: \<^verbatim>\<open>utils/jwtHelper\<close> (\<^verbatim>\<open>generateToken\<close>) is not among the sources.
  The spec (section 4.1) says that \<^verbatim>\<open>issue(claims)\<close> signs the claims it is given; the token
  is the claims under a constructor.
\<close>

datatype token = SignedToken (tokUserId: string) (tokEmail: string) (tokRole: string)

text \<open>
  The JSON bodies the modelled handlers send. The two lock-out bodies carry Vietnamese
  messages in the source (account temporarily locked; too many requests from this IP);
  the others carry the English text given here.
\<close>

datatype body =
  AccountLockedBody "string option" int
| IpRateLimitedBody
| ErrorBody string
| LoginBody string profile token
| MessageBody string

record response =
  status :: nat
  success :: bool
  json :: body

subsection \<open>The login gate (\<^verbatim>\<open>checkLoginAttempts\<close>)\<close>

datatype gate_outcome = GateRespond response | GateNext request

text \<open>
  \<^verbatim>\<open>await cacheService.get(ipKey) || 0\<close> compared with \<^verbatim>\<open>this.maxAttempts * 2\<close>: an absent
  key counts 0, and an object never compares \<^verbatim>\<open>>=\<close> to a number.
\<close>

definition ipAttemptsReach :: "cache_value option \<Rightarrow> int \<Rightarrow> bool" where
  "ipAttemptsReach v bound =
     (case v of None \<Rightarrow> 0 \<ge> bound | Some (Num n) \<Rightarrow> n \<ge> bound | Some (Lock d) \<Rightarrow> False)"

definition checkLoginAttempts :: "cache_store \<Rightarrow> int \<Rightarrow> request \<Rightarrow> gate_outcome \<times> cache_store" where
  "checkLoginAttempts c now req =
     (if \<not> truthy (body_email req) then (GateNext req, c)
      else
        (let email = the (body_email req); ipAddress = ip req in
         case isAccountLocked c now email of
           (Locked r u m, c1) \<Rightarrow>
             (GateRespond \<lparr> status = 429, success = False, json = AccountLockedBody r m \<rparr>, c1)
         | (NotLocked, c1) \<Rightarrow>
             (case cache_get c1 now (ipKey ipAddress) of
                (Inl err, c2) \<Rightarrow> (GateNext req, c2)
              | (Inr v, c2) \<Rightarrow>
                  if ipAttemptsReach v (maxAttempts * 2)
                  then (GateRespond \<lparr> status = 429, success = False, json = IpRateLimitedBody \<rparr>, c2)
                  else (GateNext (req\<lparr>loginTracking := Some (email, ipAddress)\<rparr>), c2))))"

subsection \<open>The credential directory and the profile store\<close>

datatype exn =
  DbUnavailable | DuplicateKey | NotOneRow | DirectoryUnavailable | NoUserReturned | TypeError

record auth_user =
  uid :: string
  userEmail :: string
  userPassword :: "string option"

datatype dir_status = DirUp | DirErrors | DirThrows

datatype reset_result = ResetSent | ResetError string | ResetThrows exn

text \<open>
  The credential directory is the hosted identity provider behind \<^verbatim>\<open>supabase.auth\<close>, an
  external service. Its state: the identities, the ids it will hand out next, whether
  its calls answer, report an error object or throw, what its reset call answers for
  each email, and the log of the password checks it was asked for.
\<close>

record directory =
  users :: "auth_user list"
  idSupply :: "string list"
  dirStatus :: dir_status
  resetReply :: "string option \<Rightarrow> reset_result"
  signInLog :: "(string option \<times> string option) list"

datatype sign_in = SignInOk auth_user | SignInError

definition signInWithPassword ::
  "directory \<Rightarrow> string option \<Rightarrow> string option \<Rightarrow> (exn + sign_in) \<times> directory" where
  "signInWithPassword d email password =
     (let d' = d\<lparr>signInLog := signInLog d @ [(email, password)]\<rparr> in
      case dirStatus d of
        DirThrows \<Rightarrow> (Inl DirectoryUnavailable, d')
      | DirErrors \<Rightarrow> (Inr SignInError, d')
      | DirUp \<Rightarrow>
          (case find (\<lambda>u. Some (userEmail u) = email \<and> password \<noteq> None \<and> userPassword u = password)
                  (users d) of
             None \<Rightarrow> (Inr SignInError, d')
           | Some u \<Rightarrow> (Inr (SignInOk u), d')))"

text \<open>
  \<^verbatim>\<open>supabase.auth.admin.getUserByEmail(email)\<close>, as \<^verbatim>\<open>auth.js\<close> calls it. The client that
  \<^verbatim>\<open>package.json\<close> declares (\<^verbatim>\<open>@supabase/supabase-js ^2.50.1\<close>) has no such method on its
  admin API (it offers \<^verbatim>\<open>getUserById\<close>, \<^verbatim>\<open>listUsers\<close>, \<^verbatim>\<open>createUser\<close> and others): the
  property is \<^verbatim>\<open>undefined\<close> and calling it throws a \<^verbatim>\<open>TypeError\<close>, whatever the directory
  holds. The result type is the one the caller destructures, the user, if any, and the
  status of the error, if any.
\<close>

definition getUserByEmail :: "directory \<Rightarrow> string \<Rightarrow> exn + (auth_user option \<times> nat option)" where
  "getUserByEmail d email = Inl TypeError"

datatype create_user = Created auth_user | CreateError nat

definition createUser :: "directory \<Rightarrow> string \<Rightarrow> (exn + create_user) \<times> directory" where
  "createUser d email =
     (case dirStatus d of
        DirThrows \<Rightarrow> (Inl DirectoryUnavailable, d)
      | DirErrors \<Rightarrow> (Inr (CreateError 500), d)
      | DirUp \<Rightarrow>
          (case idSupply d of
             [] \<Rightarrow> (Inr (CreateError 500), d)
           | i # rest \<Rightarrow>
               if find (\<lambda>u. userEmail u = email) (users d) \<noteq> None then (Inr (CreateError 422), d)
               else
                 (let u = \<lparr> uid = i, userEmail = email, userPassword = None \<rparr>
                  in (Inr (Created u), d\<lparr>users := users d @ [u], idSupply := rest\<rparr>))))"

text \<open>
  The \<^verbatim>\<open>profiles\<close> table behind \<^verbatim>\<open>Profile.js\<close>: its rows, and whether the database answers.
  \<^verbatim>\<open>.single()\<close> gives the row when exactly one matches and the error \<^verbatim>\<open>PGRST116\<close> otherwise.
  The spec (section 3) makes \<^verbatim>\<open>id\<close> the primary key, so an insert of a present id fails.
\<close>

record profile_store =
  rows :: "profile list"
  dbDown :: bool

definition findById :: "profile_store \<Rightarrow> string \<Rightarrow> exn + profile option" where
  "findById ps i =
     (if dbDown ps then Inl DbUnavailable
      else (case filter (\<lambda>p. pid p = i) (rows ps) of
              [p] \<Rightarrow> Inr (Some p)
            | _ \<Rightarrow> Inr None))"

record profile_data =
  data_id :: string
  data_display_name :: "string option"
  data_role :: string
  data_account_status :: "string option"

definition create :: "profile_store \<Rightarrow> profile_data \<Rightarrow> (exn + profile) \<times> profile_store" where
  "create ps profileData =
     (let profileData' =
            (if data_role profileData = ''teacher'' \<and> \<not> truthy (data_account_status profileData)
             then profileData\<lparr>data_account_status := Some ''pending_verification''\<rparr>
             else if \<not> truthy (data_account_status profileData)
             then profileData\<lparr>data_account_status := Some ''pending_verification''\<rparr>
             else profileData) in
      if dbDown ps then (Inl DbUnavailable, ps)
      else if filter (\<lambda>p. pid p = data_id profileData') (rows ps) \<noteq> [] then (Inl DuplicateKey, ps)
      else
        (let row = \<lparr> pid = data_id profileData', display_name = data_display_name profileData',
                     role = data_role profileData',
                     account_status = the (data_account_status profileData'),
                     last_seen_at = None \<rparr>
         in (Inr row, ps\<lparr>rows := rows ps @ [row]\<rparr>)))"

text \<open>\<^verbatim>\<open>Profile.update(id, { last_seen_at: new Date() })\<close>, the one update the modelled flows make.\<close>

definition update_last_seen :: "profile_store \<Rightarrow> string \<Rightarrow> int \<Rightarrow> (exn + profile) \<times> profile_store" where
  "update_last_seen ps i now =
     (if dbDown ps then (Inl DbUnavailable, ps)
      else (case filter (\<lambda>p. pid p = i) (rows ps) of
              [p] \<Rightarrow>
                (Inr (p\<lparr>last_seen_at := Some now\<rparr>),
                 ps\<lparr>rows := map (\<lambda>q. if pid q = i then q\<lparr>last_seen_at := Some now\<rparr> else q) (rows ps)\<rparr>)
            | _ \<Rightarrow> (Inl NotOneRow, ps)))"

record world =
  cache :: cache_store
  directory :: directory
  profiles :: profile_store

subsection \<open>The controller (\<^verbatim>\<open>authController.js\<close>)\<close>

text \<open>
  A handler ends by sending a response or by handing an exception to \<^verbatim>\<open>next(error)\<close>.
  \<^verbatim>\<open>res.json\<close> without \<^verbatim>\<open>res.status\<close> sends status 200.
\<close>

datatype handler_outcome = Responded response | NextError exn

definition login :: "world \<Rightarrow> int \<Rightarrow> request \<Rightarrow> handler_outcome \<times> world" where
  "login w now req =
     (case signInWithPassword (directory w) (body_email req) (body_password req) of
        (Inl err, d) \<Rightarrow> (NextError err, w\<lparr>directory := d\<rparr>)
      | (Inr SignInError, d) \<Rightarrow>
          (Responded \<lparr> status = 401, success = False,
                       json = ErrorBody ''Invalid email or password'' \<rparr>, w\<lparr>directory := d\<rparr>)
      | (Inr (SignInOk user), d) \<Rightarrow>
          (let w1 = w\<lparr>directory := d\<rparr> in
           case findById (profiles w1) (uid user) of
             Inl err \<Rightarrow> (NextError err, w1)
           | Inr None \<Rightarrow>
               (Responded \<lparr> status = 401, success = False,
                            json = ErrorBody ''Invalid credentials. Profile not found.'' \<rparr>, w1)
           | Inr (Some userProfile) \<Rightarrow>
               if account_status userProfile = ''suspended'' then
                 (Responded \<lparr> status = 403, success = False,
                              json = ErrorBody ''Your account has been suspended.'' \<rparr>, w1)
               else if account_status userProfile = ''pending_verification'' then
                 (Responded \<lparr> status = 403, success = False,
                              json = ErrorBody ''Please verify your email before logging in.'' \<rparr>, w1)
               else
                 (let appToken = SignedToken (pid userProfile) (userEmail user) (role userProfile) in
                  case update_last_seen (profiles w1) (pid userProfile) now of
                    (Inl err, ps) \<Rightarrow> (NextError err, w1\<lparr>profiles := ps\<rparr>)
                  | (Inr row, ps) \<Rightarrow>
                      (Responded \<lparr> status = 200, success = True,
                                   json = LoginBody ''Login successful'' userProfile appToken \<rparr>,
                       w1\<lparr>profiles := ps\<rparr>))))"

definition forgotPassword :: "world \<Rightarrow> string option \<Rightarrow> handler_outcome" where
  "forgotPassword w email =
     (case resetReply (directory w) email of
        ResetThrows err \<Rightarrow> NextError err
      | _ \<Rightarrow>
          Responded \<lparr> status = 200, success = True,
                      json = MessageBody
                        ''If an account with that email exists, a password reset link has been sent.'' \<rparr>)"

text \<open>
  The route \<^verbatim>\<open>POST /login\<close> of \<^verbatim>\<open>authRoutes.js\<close>: the gate, then the controller when the
  gate calls \<^verbatim>\<open>next()\<close>. (The generic rate limiter mounted before the gate is not among the
  sources.)
\<close>

definition loginRoute :: "world \<Rightarrow> int \<Rightarrow> request \<Rightarrow> handler_outcome \<times> world" where
  "loginRoute w now req =
     (case checkLoginAttempts (cache w) now req of
        (GateRespond r, c) \<Rightarrow> (Responded r, w\<lparr>cache := c\<rparr>)
      | (GateNext req', c) \<Rightarrow> login (w\<lparr>cache := c\<rparr>) now req')"

text \<open>The two closures of \<^verbatim>\<open>req.loginTracking\<close>, for a caller that invokes them.\<close>

definition trackFailure :: "world \<Rightarrow> int \<Rightarrow> request \<Rightarrow> (track_result \<times> world) option" where
  "trackFailure w now req =
     (case loginTracking req of
        None \<Rightarrow> None
      | Some (email, ipAddress) \<Rightarrow>
          (case trackFailedAttempt (cache w) now email ipAddress of
             (r, c) \<Rightarrow> Some (r, w\<lparr>cache := c\<rparr>)))"

subsection \<open>The passport strategies (\<^verbatim>\<open>config/auth.js\<close>)\<close>

text \<open>
  The three ways a verify callback calls \<^verbatim>\<open>done\<close>. In the JWT callback the test
  \<^verbatim>\<open>!payload.userId || !payload.email\<close> short-circuits: it is two tests with one answer.
\<close>

datatype done_call = DoneUser profile | DoneFalse string | DoneError exn

record jwt_payload =
  payload_userId :: "string option"
  payload_email :: "string option"

definition jwtVerify :: "profile_store \<Rightarrow> jwt_payload \<Rightarrow> done_call" where
  "jwtVerify ps payload =
     (if \<not> truthy (payload_userId payload) then DoneFalse ''Invalid token payload''
      else if \<not> truthy (payload_email payload) then DoneFalse ''Invalid token payload''
      else
        (case findById ps (the (payload_userId payload)) of
           Inl err \<Rightarrow> DoneError err
         | Inr None \<Rightarrow> DoneFalse ''User not found''
         | Inr (Some profile) \<Rightarrow>
             if account_status profile = ''suspended'' then DoneFalse ''Account is suspended''
             else DoneUser profile))"

text \<open>The part of the Google profile that the strategy reads.\<close>

record google_profile =
  emails :: "string list option"
  displayName :: "string option"

text \<open>The end of the Google callback, from the suspension check on.\<close>

definition finishGoogle :: "world \<Rightarrow> int \<Rightarrow> profile \<Rightarrow> done_call \<times> world" where
  "finishGoogle w now userProfile =
     (if account_status userProfile = ''suspended'' then (DoneFalse ''Account is suspended'', w)
      else
        (case update_last_seen (profiles w) (pid userProfile) now of
           (Inl err, ps) \<Rightarrow> (DoneError err, w\<lparr>profiles := ps\<rparr>)
         | (Inr row, ps) \<Rightarrow> (DoneUser userProfile, w\<lparr>profiles := ps\<rparr>)))"

definition learnerProfile :: "string \<Rightarrow> string option \<Rightarrow> profile_data" where
  "learnerProfile i name =
     \<lparr> data_id = i, data_display_name = name, data_role = ''learner'',
       data_account_status = Some ''active'' \<rparr>"

definition googleVerify :: "world \<Rightarrow> int \<Rightarrow> google_profile \<Rightarrow> done_call \<times> world" where
  "googleVerify w now gp =
     (case emails gp of
        None \<Rightarrow> (DoneFalse ''No email found in Google profile'', w)
      | Some [] \<Rightarrow> (DoneFalse ''No email found in Google profile'', w)
      | Some (addr # others) \<Rightarrow>
          (case getUserByEmail (directory w) addr of
             Inl err \<Rightarrow> (DoneError err, w)
           | Inr (existingAuthUser, findError) \<Rightarrow>
               if findError \<noteq> None \<and> findError \<noteq> Some 404 then (DoneError DirectoryUnavailable, w)
               else
                 (case existingAuthUser of
                    Some authUser \<Rightarrow>
                      (case findById (profiles w) (uid authUser) of
                         Inl err \<Rightarrow> (DoneError err, w)
                       | Inr (Some userProfile) \<Rightarrow> finishGoogle w now userProfile
                       | Inr None \<Rightarrow>
                           (case create (profiles w) (learnerProfile (uid authUser) (displayName gp)) of
                              (Inl err, ps) \<Rightarrow> (DoneError err, w\<lparr>profiles := ps\<rparr>)
                            | (Inr userProfile, ps) \<Rightarrow> finishGoogle (w\<lparr>profiles := ps\<rparr>) now userProfile))
                  | None \<Rightarrow>
                      (case createUser (directory w) addr of
                         (Inl err, d) \<Rightarrow> (DoneError err, w\<lparr>directory := d\<rparr>)
                       | (Inr (CreateError code), d) \<Rightarrow> (DoneError DirectoryUnavailable, w\<lparr>directory := d\<rparr>)
                       | (Inr (Created authUser), d) \<Rightarrow>
                           (let w1 = w\<lparr>directory := d\<rparr> in
                            case create (profiles w1) (learnerProfile (uid authUser) (displayName gp)) of
                              (Inl err, ps) \<Rightarrow> (DoneError err, w1\<lparr>profiles := ps\<rparr>)
                            | (Inr userProfile, ps) \<Rightarrow> finishGoogle (w1\<lparr>profiles := ps\<rparr>) now userProfile)))))"

subsection \<open>Notions used to state the properties\<close>

text \<open>The lock record that \<^verbatim>\<open>lockAccount\<close> builds for given arguments and clock.\<close>

definition lockRecord :: "string \<Rightarrow> int \<Rightarrow> string \<Rightarrow> int \<Rightarrow> lock_data" where
  "lockRecord e n i t =
     \<lparr> lockEmail = e, lockAttempts = n, lockIp = i, lockedAt = t,
       lockedUntil = t + int lockoutDuration * 1000,
       lockReason = show_int n @ '' failed login attempts'' \<rparr>"

text \<open>A key whose entry, live or not, is a lock record: \<^verbatim>\<open>incr\<close> cannot count on it.\<close>

definition holds_lock :: "cache_store \<Rightarrow> string \<Rightarrow> bool" where
  "holds_lock c k = (case entries c k of Some (Lock d, expiry) \<Rightarrow> True | _ \<Rightarrow> False)"

text \<open>A run of tracked failures for one email: the clock and the client address of each.\<close>

fun trackAll :: "cache_store \<Rightarrow> string \<Rightarrow> (int \<times> string) list \<Rightarrow> cache_store" where
  "trackAll c e [] = c"
| "trackAll c e ((t, i) # rest) = trackAll (snd (trackFailedAttempt c t e i)) e rest"

text \<open>The reset call came back, with or without an error object.\<close>

definition reset_returns :: "reset_result \<Rightarrow> bool" where
  "reset_returns r = (case r of ResetThrows err \<Rightarrow> False | _ \<Rightarrow> True)"

subsection \<open>Sample states\<close>

definition empty_cache :: cache_store where
  "empty_cache = \<lparr> entries = Map.empty, faults = [] \<rparr>"

definition sample_user :: auth_user where
  "sample_user = \<lparr> uid = ''u1'', userEmail = ''a@x.com'', userPassword = Some ''secret'' \<rparr>"

definition sample_profile :: "string \<Rightarrow> profile" where
  "sample_profile st =
     \<lparr> pid = ''u1'', display_name = Some ''Ann'', role = ''learner'', account_status = st,
       last_seen_at = None \<rparr>"

definition sample_directory :: "auth_user list \<Rightarrow> directory" where
  "sample_directory us =
     \<lparr> users = us, idSupply = [''u2'', ''u3''], dirStatus = DirUp,
       resetReply = (\<lambda>e. if e = Some ''a@x.com'' then ResetSent else ResetError ''User not found''),
       signInLog = [] \<rparr>"

definition sample_world :: "profile list \<Rightarrow> cache_store \<Rightarrow> world" where
  "sample_world ps c =
     \<lparr> cache = c, directory = sample_directory [sample_user],
       profiles = \<lparr> rows = ps, dbDown = False \<rparr> \<rparr>"

definition sample_request :: "string option \<Rightarrow> string \<Rightarrow> request" where
  "sample_request e pw =
     \<lparr> body_email = e, body_password = Some pw, ip = ''10.0.0.1'', loginTracking = None \<rparr>"

definition sample_lock :: lock_data where
  "sample_lock = lockRecord ''a@x.com'' 5 ''10.0.0.1'' 0"

text \<open>A store that holds a lock for the sample email and 99 attempts for the sample address.\<close>

definition locked_cache :: "bool list \<Rightarrow> cache_store" where
  "locked_cache fs =
     \<lparr> entries = [lockKey ''a@x.com'' \<mapsto> (Lock sample_lock, 900000),
                  ipKey ''10.0.0.1'' \<mapsto> (Num 99, 900000)],
       faults = fs \<rparr>"

text \<open>A store that holds 10 attempts for the sample address and nothing else.\<close>

definition ip_cache :: cache_store where
  "ip_cache = \<lparr> entries = [ipKey ''10.0.0.1'' \<mapsto> (Num 10, 900000)], faults = [] \<rparr>"

text \<open>The first \<open>k\<close> failures of a run from the sample address, one second apart.\<close>

definition failures :: "nat \<Rightarrow> (int \<times> string) list" where
  "failures k = map (\<lambda>j. (int j * 1000, ''10.0.0.1'')) [0..<k]"

definition sample_google :: "string \<Rightarrow> google_profile" where
  "sample_google addr = \<lparr> emails = Some [addr], displayName = Some ''Ann'' \<rparr>"

section \<open>Properties\<close>

subsection \<open>Keys and the cache\<close>

lemma key_distinct [simp]:
  "attemptsKey e \<noteq> ipKey i" "ipKey i \<noteq> attemptsKey e"
  "attemptsKey e \<noteq> lockKey e'" "lockKey e' \<noteq> attemptsKey e"
  "ipKey i \<noteq> lockKey e'" "lockKey e' \<noteq> ipKey i"
  by (simp_all add: attemptsKey_def ipKey_def lockKey_def)

lemma key_inj [simp]:
  "attemptsKey e = attemptsKey e' \<longleftrightarrow> e = e'"
  "ipKey i = ipKey i' \<longleftrightarrow> i = i'"
  "lockKey e = lockKey e' \<longleftrightarrow> e = e'"
  by (simp_all add: attemptsKey_def ipKey_def lockKey_def)

lemma consume_simps [simp]:
  "entries (consume c) = entries c" "faults (consume c) = tl (faults c)"
  "lookup_live (consume c) now k = lookup_live c now k"
  by (simp_all add: consume_def lookup_live_def)

lemma healthy_simps:
  "faults c = [] \<Longrightarrow> \<not> next_fails c"
  "faults c = [] \<Longrightarrow> consume c = c"
  by (simp_all add: next_fails_def consume_def)

lemma remainingTime_eq: "remainingTime u now = \<lceil>real_of_int (u - now) / 60000\<rceil>"
  by (simp add: remainingTime_def)

subsection \<open>\<^verbatim>\<open>isAccountLocked\<close>\<close>

lemma isAccountLocked_lock:
  "\<not> next_fails c \<Longrightarrow> lookup_live c now (lockKey e) = Some (Lock d) \<Longrightarrow>
   isAccountLocked c now e =
     (Locked (Some (lockReason d)) (Some (lockedUntil d))
        (if remainingTime (lockedUntil d) now > 0 then remainingTime (lockedUntil d) now else 1), consume c)"
  by (simp add: isAccountLocked_def cache_get_def)

lemma isAccountLocked_none:
  "\<not> next_fails c \<Longrightarrow> lookup_live c now (lockKey e) = None \<Longrightarrow>
   isAccountLocked c now e = (NotLocked, consume c)"
  by (simp add: isAccountLocked_def cache_get_def)

lemma isAccountLocked_fault:
  "next_fails c \<Longrightarrow> isAccountLocked c now e = (NotLocked, consume c)"
  by (simp add: isAccountLocked_def cache_get_def)

text \<open>
  C6. With the cache answering: when a live lock record is stored for the email,
  \<^verbatim>\<open>isAccountLocked\<close> reports locked with the record's reason and \<^verbatim>\<open>lockedUntil\<close>, and its
  \<^verbatim>\<open>remainingMinutes\<close> is \<open>\<lceil>(lockedUntil - now) / 60000\<rceil>\<close> when that is positive and 1
  otherwise, hence at least 1; when no entry is stored it reports not locked.
\<close>

theorem C6_remaining_minutes:
  "\<not> next_fails c \<Longrightarrow>
     (\<forall>d. lookup_live c now (lockKey e) = Some (Lock d) \<longrightarrow>
        (\<exists>m. fst (isAccountLocked c now e) = Locked (Some (lockReason d)) (Some (lockedUntil d)) m \<and>
             m = (if \<lceil>real_of_int (lockedUntil d - now) / 60000\<rceil> > 0
                  then \<lceil>real_of_int (lockedUntil d - now) / 60000\<rceil> else 1) \<and>
             m \<ge> 1)) \<and>
     (lookup_live c now (lockKey e) = None \<longrightarrow> fst (isAccountLocked c now e) = NotLocked)"
  by (auto simp: isAccountLocked_lock isAccountLocked_none remainingTime_eq)

lemma sample_lock_simps:
  "lockedUntil sample_lock = 900000" "lockReason sample_lock = ''5 failed login attempts''"
  by (simp_all add: sample_lock_def lockRecord_def lockoutDuration_def show_int_def digit_char_def)

theorem C6_remaining_minutes_witness:
  "\<not> next_fails (locked_cache []) \<and>
   lookup_live (locked_cache []) 899999 (lockKey ''a@x.com'') = Some (Lock sample_lock) \<and>
   fst (isAccountLocked (locked_cache []) 899999 ''a@x.com'') =
     Locked (Some ''5 failed login attempts'') (Some 900000) 1 \<and>
   fst (isAccountLocked (locked_cache []) 60000 ''a@x.com'') =
     Locked (Some ''5 failed login attempts'') (Some 900000) 14 \<and>
   lookup_live (locked_cache []) 0 (lockKey ''b@x.com'') = None \<and>
   fst (isAccountLocked (locked_cache []) 0 ''b@x.com'') = NotLocked"
  using C6_remaining_minutes [of "locked_cache []" 899999 "''a@x.com''"]
    C6_remaining_minutes [of "locked_cache []" 60000 "''a@x.com''"]
    C6_remaining_minutes [of "locked_cache []" 0 "''b@x.com''"]
  by (simp add: next_fails_def locked_cache_def lookup_live_def sample_lock_simps lockKey_def ipKey_def
        ceiling_eq_iff)

subsection \<open>The login gate\<close>

lemma gate_locked:
  assumes "body_email req = Some e" "e \<noteq> []" "\<not> next_fails c"
    and "lookup_live c now (lockKey e) = Some (Lock d)"
  shows "checkLoginAttempts c now req =
     (GateRespond \<lparr> status = 429, success = False,
         json = AccountLockedBody (Some (lockReason d))
                  (if remainingTime (lockedUntil d) now > 0 then remainingTime (lockedUntil d) now else 1) \<rparr>,
      consume c)"
  using assms by (simp add: checkLoginAttempts_def truthy_def isAccountLocked_lock)

lemma gate_ip_limited:
  assumes "body_email req = Some e" "e \<noteq> []" "\<not> next_fails c" "\<not> next_fails (consume c)"
    and "lookup_live c now (lockKey e) = None"
    and "ipAttemptsReach (lookup_live c now (ipKey (ip req))) (maxAttempts * 2)"
  shows "checkLoginAttempts c now req =
     (GateRespond \<lparr> status = 429, success = False, json = IpRateLimitedBody \<rparr>, consume (consume c))"
  using assms by (simp add: checkLoginAttempts_def truthy_def isAccountLocked_none cache_get_def)

lemma gate_outage:
  assumes "next_fails c" "next_fails (consume c)"
  shows "fst (checkLoginAttempts c now req) = GateNext req"
  using assms by (simp add: checkLoginAttempts_def isAccountLocked_fault cache_get_def)

lemma gate_keeps_entries: "entries (snd (checkLoginAttempts c now req)) = entries c"
  by (auto simp: checkLoginAttempts_def isAccountLocked_def cache_get_def Let_def
           split: if_splits option.splits cache_value.splits)

lemma gate_respond_justified:
  assumes "fst (checkLoginAttempts c now req) = GateRespond r"
  shows "(\<not> next_fails c \<and> (\<exists>v. lookup_live c now (lockKey (the (body_email req))) = Some v \<and> v \<noteq> Num 0)) \<or>
         (\<not> next_fails (consume c) \<and> ipAttemptsReach (lookup_live c now (ipKey (ip req))) (maxAttempts * 2))"
  using assms
  by (auto simp: checkLoginAttempts_def isAccountLocked_def cache_get_def Let_def
           split: if_splits option.splits cache_value.splits)

lemma route_respond:
  "checkLoginAttempts (cache w) now req = (GateRespond r, c) \<Longrightarrow>
   loginRoute w now req = (Responded r, w\<lparr>cache := c\<rparr>)"
  by (simp add: loginRoute_def)

lemma route_next:
  "fst (checkLoginAttempts (cache w) now req) = GateNext req' \<Longrightarrow>
   loginRoute w now req = login (w\<lparr>cache := snd (checkLoginAttempts (cache w) now req)\<rparr>) now req'"
  by (cases "checkLoginAttempts (cache w) now req") (simp add: loginRoute_def)

text \<open>
  C9. A login request whose body has no email field passes the gate untouched: the gate
  hands on the request as it came (no tracking hooks), makes no cache call (the store,
  fault schedule included, is as before), and the route continues with the controller's
  credential check, whatever locks and counters the cache holds.
\<close>

theorem C9_no_email_passes_gate:
  "body_email req = None \<Longrightarrow>
     checkLoginAttempts c now req = (GateNext req, c) \<and>
     loginRoute w now req = login w now req"
  by (simp add: checkLoginAttempts_def loginRoute_def truthy_def)

theorem C9_no_email_passes_gate_witness:
  "body_email (sample_request None ''pw'') = None \<and>
   lookup_live (locked_cache [True]) 0 (ipKey (ip (sample_request None ''pw''))) = Some (Num 99) \<and>
   checkLoginAttempts (locked_cache [True]) 0 (sample_request None ''pw'') =
     (GateNext (sample_request None ''pw''), locked_cache [True]) \<and>
   loginTracking (sample_request None ''pw'') = None \<and>
   loginRoute (sample_world [] (locked_cache [True])) 0 (sample_request None ''pw'') =
     login (sample_world [] (locked_cache [True])) 0 (sample_request None ''pw'')"
  using C9_no_email_passes_gate [of "sample_request None ''pw''" "locked_cache [True]" 0
      "sample_world [] (locked_cache [True])"]
  by (simp add: sample_request_def locked_cache_def lookup_live_def lockKey_def ipKey_def)

lemma gate_lock_read_fault:
  assumes "body_email req = Some e" "e \<noteq> []" "next_fails c" "\<not> next_fails (consume c)"
  shows "checkLoginAttempts c now req =
     (if ipAttemptsReach (lookup_live c now (ipKey (ip req))) (maxAttempts * 2)
      then GateRespond \<lparr> status = 429, success = False, json = IpRateLimitedBody \<rparr>
      else GateNext (req\<lparr>loginTracking := Some (e, ip req)\<rparr>),
      consume (consume c))"
  using assms by (simp add: checkLoginAttempts_def truthy_def isAccountLocked_fault cache_get_def Let_def)

lemma gate_ip_read_fault:
  assumes "next_fails (consume c)"
    and "next_fails c \<or> lookup_live c now (lockKey (the (body_email req))) = None"
  shows "fst (checkLoginAttempts c now req) = GateNext req"
  using assms
  by (auto simp: checkLoginAttempts_def isAccountLocked_def cache_get_def Let_def
           split: if_splits option.splits cache_value.splits)

lemma route_keeps_sign_in_log_on_reject:
  "checkLoginAttempts (cache w) now req = (GateRespond r, c) \<Longrightarrow>
   signInLog (directory (snd (loginRoute w now req))) = signInLog (directory w)"
  by (simp add: loginRoute_def)

text \<open>
  C5, as the claim states it, at a partial outage: the lock read throws and
  \<^verbatim>\<open>isAccountLocked\<close> reports not locked, the read of the IP counter answers 99, and the
  gate blocks the request with status 429; no credential check is made.
\<close>

theorem C5_counterexample_partial_outage:
  "next_fails (locked_cache [True]) \<and>
   fst (isAccountLocked (locked_cache [True]) 0 ''a@x.com'') = NotLocked \<and>
   fst (checkLoginAttempts (locked_cache [True]) 0 (sample_request (Some ''a@x.com'') ''secret'')) =
     GateRespond \<lparr> status = 429, success = False, json = IpRateLimitedBody \<rparr> \<and>
   fst (loginRoute (sample_world [sample_profile ''active''] (locked_cache [True])) 0
          (sample_request (Some ''a@x.com'') ''secret'')) =
     Responded \<lparr> status = 429, success = False, json = IpRateLimitedBody \<rparr> \<and>
   signInLog (directory (snd (loginRoute (sample_world [sample_profile ''active''] (locked_cache [True])) 0
          (sample_request (Some ''a@x.com'') ''secret'')))) = []"
  by (simp add: loginRoute_def checkLoginAttempts_def isAccountLocked_def cache_get_def next_fails_def
        consume_def locked_cache_def lookup_live_def ipAttemptsReach_def maxAttempts_def truthy_def
        sample_request_def sample_world_def sample_directory_def lockKey_def ipKey_def Let_def)

text \<open>
  C5, amended. A failure of the guard never blocks a request by itself. A read of
  \<^verbatim>\<open>isAccountLocked\<close> that throws reports not locked. When the gate's read of the IP
  counter throws, and the lock read threw too or found no entry, the gate calls
  \<^verbatim>\<open>next()\<close> with the request as it came; in particular when the store is unreachable
  for both reads, and then the route goes on to the controller with the stored entries
  untouched. When only the lock read throws, the gate decides on the IP counter alone:
  status 429 at \<open>2 * maxAttempts\<close> counted attempts or more, \<^verbatim>\<open>next()\<close> with the tracking
  hooks below that. Whenever the gate rejects, the read behind the rejection answered.
\<close>

theorem C5_gate_fails_open:
  "(next_fails c \<longrightarrow> fst (isAccountLocked c now e) = NotLocked) \<and>
   (next_fails c \<and> next_fails (consume c) \<longrightarrow> fst (checkLoginAttempts c now req) = GateNext req) \<and>
   (next_fails (consume c) \<and> lookup_live c now (lockKey (the (body_email req))) = None \<longrightarrow>
      fst (checkLoginAttempts c now req) = GateNext req) \<and>
   (next_fails (cache w) \<and> next_fails (consume (cache w)) \<longrightarrow>
      (\<exists>c'. loginRoute w now req = login (w\<lparr>cache := c'\<rparr>) now req \<and> entries c' = entries (cache w))) \<and>
   (truthy (body_email req) \<and> next_fails c \<and> \<not> next_fails (consume c) \<longrightarrow>
      fst (checkLoginAttempts c now req) =
        (if ipAttemptsReach (lookup_live c now (ipKey (ip req))) (maxAttempts * 2)
         then GateRespond \<lparr> status = 429, success = False, json = IpRateLimitedBody \<rparr>
         else GateNext (req\<lparr>loginTracking := Some (the (body_email req), ip req)\<rparr>))) \<and>
   (\<forall>r. fst (checkLoginAttempts c now req) = GateRespond r \<longrightarrow>
      (\<not> next_fails c \<and> (\<exists>v. lookup_live c now (lockKey (the (body_email req))) = Some v \<and> v \<noteq> Num 0)) \<or>
      (\<not> next_fails (consume c) \<and> ipAttemptsReach (lookup_live c now (ipKey (ip req))) (maxAttempts * 2)))"
proof (intro conjI impI allI)
  assume "next_fails c"
  then show "fst (isAccountLocked c now e) = NotLocked" by (simp add: isAccountLocked_fault)
next
  assume "next_fails c \<and> next_fails (consume c)"
  then show "fst (checkLoginAttempts c now req) = GateNext req" by (simp add: gate_outage)
next
  assume "next_fails (consume c) \<and> lookup_live c now (lockKey (the (body_email req))) = None"
  then show "fst (checkLoginAttempts c now req) = GateNext req" by (simp add: gate_ip_read_fault)
next
  assume "next_fails (cache w) \<and> next_fails (consume (cache w))"
  then have "fst (checkLoginAttempts (cache w) now req) = GateNext req" by (simp add: gate_outage)
  then have "loginRoute w now req =
      login (w\<lparr>cache := snd (checkLoginAttempts (cache w) now req)\<rparr>) now req"
    by (rule route_next)
  then show "\<exists>c'. loginRoute w now req = login (w\<lparr>cache := c'\<rparr>) now req \<and> entries c' = entries (cache w)"
    using gate_keeps_entries by blast
next
  assume h: "truthy (body_email req) \<and> next_fails c \<and> \<not> next_fails (consume c)"
  then obtain e' where e': "body_email req = Some e'" "e' \<noteq> []"
    by (auto simp: truthy_def split: option.splits)
  show "fst (checkLoginAttempts c now req) =
        (if ipAttemptsReach (lookup_live c now (ipKey (ip req))) (maxAttempts * 2)
         then GateRespond \<lparr> status = 429, success = False, json = IpRateLimitedBody \<rparr>
         else GateNext (req\<lparr>loginTracking := Some (the (body_email req), ip req)\<rparr>))"
    using gate_lock_read_fault [of req e' c now] e' h by simp
next
  fix r assume "fst (checkLoginAttempts c now req) = GateRespond r"
  then show "(\<not> next_fails c \<and> (\<exists>v. lookup_live c now (lockKey (the (body_email req))) = Some v \<and> v \<noteq> Num 0)) \<or>
      (\<not> next_fails (consume c) \<and> ipAttemptsReach (lookup_live c now (ipKey (ip req))) (maxAttempts * 2))"
    by (rule gate_respond_justified)
qed

theorem C5_gate_fails_open_witness:
  "next_fails (locked_cache [True, True]) \<and> next_fails (consume (locked_cache [True, True])) \<and>
   lookup_live (locked_cache [True, True]) 0 (lockKey ''a@x.com'') = Some (Lock sample_lock) \<and>
   fst (isAccountLocked (locked_cache [True, True]) 0 ''a@x.com'') = NotLocked \<and>
   fst (checkLoginAttempts (locked_cache [True, True]) 0 (sample_request (Some ''a@x.com'') ''pw'')) =
     GateNext (sample_request (Some ''a@x.com'') ''pw'') \<and>
   next_fails (consume (locked_cache [False, True])) \<and>
   lookup_live (locked_cache [False, True]) 0 (lockKey ''b@x.com'') = None \<and>
   fst (checkLoginAttempts (locked_cache [False, True]) 0 (sample_request (Some ''b@x.com'') ''pw'')) =
     GateNext (sample_request (Some ''b@x.com'') ''pw'') \<and>
   truthy (body_email (sample_request (Some ''a@x.com'') ''pw'')) \<and>
   next_fails (locked_cache [True]) \<and> \<not> next_fails (consume (locked_cache [True])) \<and>
   fst (checkLoginAttempts (locked_cache [True]) 0 (sample_request (Some ''a@x.com'') ''pw'')) =
     GateRespond \<lparr> status = 429, success = False, json = IpRateLimitedBody \<rparr>"
  using C5_gate_fails_open [of "locked_cache [True, True]" 0 "''a@x.com''"
      "sample_request (Some ''a@x.com'') ''pw''" "sample_world [] (locked_cache [True, True])"]
    C5_gate_fails_open [of "locked_cache [False, True]" 0 "''b@x.com''"
      "sample_request (Some ''b@x.com'') ''pw''" "sample_world [] (locked_cache [False, True])"]
    C5_gate_fails_open [of "locked_cache [True]" 0 "''a@x.com''"
      "sample_request (Some ''a@x.com'') ''pw''" "sample_world [] (locked_cache [True])"]
  by (simp add: next_fails_def consume_def locked_cache_def lookup_live_def lockKey_def ipKey_def
        truthy_def sample_request_def ipAttemptsReach_def maxAttempts_def)

text \<open>
  C8, as the claim states it, at a request without an email: the address has 10 counted
  attempts, no lock is stored, and the gate hands the request on.
\<close>

theorem C8_counterexample_no_email:
  "lookup_live ip_cache 0 (ipKey (ip (sample_request None ''pw''))) = Some (Num 10) \<and>
   10 \<ge> maxAttempts * 2 \<and>
   fst (checkLoginAttempts ip_cache 0 (sample_request None ''pw'')) = GateNext (sample_request None ''pw'') \<and>
   signInLog (directory (snd (loginRoute (sample_world [] ip_cache) 0 (sample_request None ''pw'')))) =
     [(None, Some ''pw'')]"
  by (simp add: ip_cache_def sample_request_def lookup_live_def maxAttempts_def checkLoginAttempts_def
        truthy_def loginRoute_def login_def signInWithPassword_def sample_world_def sample_directory_def
        sample_user_def)

text \<open>
  C8, amended. For a request that carries a non-empty email, with both reads of the gate
  answering and no lock entry stored for that email: when the counter of the client
  address is at least \<open>2 * maxAttempts\<close> (10), the gate rejects with status 429 and the
  rate-limit body, and the route ends there, before any credential check.
\<close>

theorem C8_ip_cutoff:
  assumes "body_email req = Some e" and "e \<noteq> []"
    and "\<not> next_fails (cache w)" and "\<not> next_fails (consume (cache w))"
    and "lookup_live (cache w) now (lockKey e) = None"
    and "lookup_live (cache w) now (ipKey (ip req)) = Some (Num n)" and "n \<ge> 2 * maxAttempts"
  shows "fst (checkLoginAttempts (cache w) now req) =
           GateRespond \<lparr> status = 429, success = False, json = IpRateLimitedBody \<rparr> \<and>
         fst (loginRoute w now req) =
           Responded \<lparr> status = 429, success = False, json = IpRateLimitedBody \<rparr> \<and>
         signInLog (directory (snd (loginRoute w now req))) = signInLog (directory w) \<and>
         2 * maxAttempts = 10"
proof -
  have reach: "ipAttemptsReach (lookup_live (cache w) now (ipKey (ip req))) (maxAttempts * 2)"
    using assms(6,7) by (simp add: ipAttemptsReach_def mult.commute)
  have gate: "checkLoginAttempts (cache w) now req =
     (GateRespond \<lparr> status = 429, success = False, json = IpRateLimitedBody \<rparr>, consume (consume (cache w)))"
    using gate_ip_limited [OF assms(1-5) reach] .
  show ?thesis
    using gate route_respond [OF gate] route_keeps_sign_in_log_on_reject [OF gate]
    by (simp add: maxAttempts_def)
qed

theorem C8_ip_cutoff_witness:
  "body_email (sample_request (Some ''b@x.com'') ''pw'') = Some ''b@x.com'' \<and>
   \<not> next_fails (cache (sample_world [] ip_cache)) \<and>
   \<not> next_fails (consume (cache (sample_world [] ip_cache))) \<and>
   lookup_live (cache (sample_world [] ip_cache)) 0 (lockKey ''b@x.com'') = None \<and>
   lookup_live (cache (sample_world [] ip_cache)) 0 (ipKey (ip (sample_request (Some ''b@x.com'') ''pw''))) =
     Some (Num 10) \<and>
   fst (loginRoute (sample_world [] ip_cache) 0 (sample_request (Some ''b@x.com'') ''pw'')) =
     Responded \<lparr> status = 429, success = False, json = IpRateLimitedBody \<rparr> \<and>
   signInLog (directory (snd (loginRoute (sample_world [] ip_cache) 0 (sample_request (Some ''b@x.com'') ''pw'')))) = []"
  using C8_ip_cutoff [of "sample_request (Some ''b@x.com'') ''pw''" "''b@x.com''" "sample_world [] ip_cache" 0 10]
  by (simp add: sample_request_def sample_world_def ip_cache_def next_fails_def consume_def
        lookup_live_def maxAttempts_def sample_directory_def lockKey_def ipKey_def)

subsection \<open>The controller and the token strategy\<close>

text \<open>
  C7. Forgot-password does not tell accounts apart: for any two states of the credential
  directory and any two emails, as long as the reset call comes back (with or without
  an error object), the handler sends one and the same response, status 200 with the
  generic message.
\<close>

theorem C7_forgot_password_generic:
  "reset_returns (resetReply (directory w) e) \<Longrightarrow> reset_returns (resetReply (directory w') e') \<Longrightarrow>
     forgotPassword w e = forgotPassword w' e' \<and>
     forgotPassword w e =
       Responded \<lparr> status = 200, success = True,
                   json = MessageBody ''If an account with that email exists, a password reset link has been sent.'' \<rparr>"
  by (simp add: forgotPassword_def reset_returns_def split: reset_result.splits)

theorem C7_forgot_password_generic_witness:
  "resetReply (directory (sample_world [] empty_cache)) (Some ''a@x.com'') = ResetSent \<and>
   resetReply (directory (sample_world [] empty_cache)) (Some ''nobody@x.com'') = ResetError ''User not found'' \<and>
   reset_returns (resetReply (directory (sample_world [] empty_cache)) (Some ''a@x.com'')) \<and>
   reset_returns (resetReply (directory (sample_world [] empty_cache)) (Some ''nobody@x.com'')) \<and>
   forgotPassword (sample_world [] empty_cache) (Some ''a@x.com'') =
     forgotPassword (sample_world [] empty_cache) (Some ''nobody@x.com'') \<and>
   forgotPassword (sample_world [] empty_cache) (Some ''nobody@x.com'') =
     Responded \<lparr> status = 200, success = True,
                 json = MessageBody ''If an account with that email exists, a password reset link has been sent.'' \<rparr>"
  using C7_forgot_password_generic [of "sample_world [] empty_cache" "Some ''nobody@x.com''"
      "sample_world [] empty_cache" "Some ''a@x.com''"]
  by (auto simp: sample_world_def sample_directory_def reset_returns_def)

text \<open>
  C10. For a token payload with a user id and an email whose profile is found, the JWT
  strategy accepts if and only if the profile's \<^verbatim>\<open>account_status\<close> is not
  \<^verbatim>\<open>suspended\<close>, and then it hands on that profile; a \<^verbatim>\<open>pending_verification\<close> profile is
  accepted. The strategy answers \<^verbatim>\<open>done(null, false)\<close> in three states only: a claim is
  missing, no profile is found for the subject, or the profile is suspended.
\<close>

theorem C10_jwt_accepts_unless_suspended:
  "(truthy (payload_userId pl) \<and> truthy (payload_email pl) \<and>
    findById ps (the (payload_userId pl)) = Inr (Some p) \<longrightarrow>
      ((\<exists>u. jwtVerify ps pl = DoneUser u) \<longleftrightarrow> account_status p \<noteq> ''suspended'') \<and>
      (account_status p \<noteq> ''suspended'' \<longrightarrow> jwtVerify ps pl = DoneUser p) \<and>
      (account_status p = ''pending_verification'' \<longrightarrow> jwtVerify ps pl = DoneUser p)) \<and>
   (\<forall>m. jwtVerify ps pl = DoneFalse m \<longrightarrow>
      (\<not> truthy (payload_userId pl) \<and> m = ''Invalid token payload'') \<or>
      (\<not> truthy (payload_email pl) \<and> m = ''Invalid token payload'') \<or>
      (findById ps (the (payload_userId pl)) = Inr None \<and> m = ''User not found'') \<or>
      ((\<exists>q. findById ps (the (payload_userId pl)) = Inr (Some q) \<and> account_status q = ''suspended'') \<and>
       m = ''Account is suspended''))"
  by (auto simp: jwtVerify_def split: sum.splits option.splits if_splits)

theorem C10_jwt_accepts_unless_suspended_witness:
  "truthy (payload_userId \<lparr> payload_userId = Some ''u1'', payload_email = Some ''a@x.com'' \<rparr>) \<and>
   truthy (payload_email \<lparr> payload_userId = Some ''u1'', payload_email = Some ''a@x.com'' \<rparr>) \<and>
   findById \<lparr> rows = [sample_profile ''pending_verification''], dbDown = False \<rparr> ''u1'' =
     Inr (Some (sample_profile ''pending_verification'')) \<and>
   jwtVerify \<lparr> rows = [sample_profile ''pending_verification''], dbDown = False \<rparr>
       \<lparr> payload_userId = Some ''u1'', payload_email = Some ''a@x.com'' \<rparr> =
     DoneUser (sample_profile ''pending_verification'') \<and>
   jwtVerify \<lparr> rows = [sample_profile ''suspended''], dbDown = False \<rparr>
       \<lparr> payload_userId = Some ''u1'', payload_email = Some ''a@x.com'' \<rparr> =
     DoneFalse ''Account is suspended''"
  using C10_jwt_accepts_unless_suspended [of "\<lparr> payload_userId = Some ''u1'', payload_email = Some ''a@x.com'' \<rparr>"
      "\<lparr> rows = [sample_profile ''pending_verification''], dbDown = False \<rparr>"
      "sample_profile ''pending_verification''"]
  by (simp add: truthy_def findById_def sample_profile_def jwtVerify_def)

subsection \<open>Tracking failures\<close>

lemma track_step:
  assumes "faults c = []" "\<not> holds_lock c (ipKey i)"
    and "entries c (attemptsKey e) = Some (Num n, x)" "t < x"
  shows "faults (snd (trackFailedAttempt c t e i)) = []"
    and "entries (snd (trackFailedAttempt c t e i)) (attemptsKey e) = Some (Num (n + 1), x)"
    and "attempts (fst (trackFailedAttempt c t e i)) = n + 1"
    and "isLocked (fst (trackFailedAttempt c t e i)) = (n + 1 \<ge> maxAttempts)"
    and "\<not> holds_lock c k \<Longrightarrow> k \<noteq> lockKey e \<Longrightarrow> \<not> holds_lock (snd (trackFailedAttempt c t e i)) k"
    and "n + 1 \<ge> maxAttempts \<Longrightarrow> entries (snd (trackFailedAttempt c t e i)) (lockKey e) =
           Some (Lock (lockRecord e (n + 1) i t), t + int lockoutDuration * 1000)"
  using assms
  by (auto simp: trackFailedAttempt_def cache_incr_def healthy_simps holds_lock_def lockAccount_def
        cache_set_def lockRecord_def Let_def
      split: option.splits cache_value.splits prod.splits if_splits)

lemma track_first:
  assumes "faults c = []" "\<not> holds_lock c (ipKey i)"
    and "lookup_live c t (attemptsKey e) = None"
  shows "faults (snd (trackFailedAttempt c t e i)) = []"
    and "entries (snd (trackFailedAttempt c t e i)) (attemptsKey e) = Some (Num 1, t + int attemptWindow * 1000)"
    and "attempts (fst (trackFailedAttempt c t e i)) = 1"
    and "\<not> holds_lock c k \<Longrightarrow> k \<noteq> lockKey e \<Longrightarrow> \<not> holds_lock (snd (trackFailedAttempt c t e i)) k"
  using assms
  by (auto simp: trackFailedAttempt_def cache_incr_def healthy_simps holds_lock_def lockAccount_def
        cache_set_def lockRecord_def Let_def lookup_live_def maxAttempts_def
      split: option.splits cache_value.splits prod.splits if_splits)

lemma trackAll_locks:
  assumes "faults c = []" "entries c (attemptsKey e) = Some (Num n, x)"
    and "\<forall>(t, i) \<in> set as. t < x \<and> \<not> holds_lock c (ipKey i)"
    and "as \<noteq> []" "n + int (length as) \<ge> maxAttempts"
  shows "faults (trackAll c e as) = [] \<and>
         entries (trackAll c e as) (lockKey e) =
           Some (Lock (lockRecord e (n + int (length as)) (snd (last as)) (fst (last as))),
                 fst (last as) + int lockoutDuration * 1000)"
  using assms
proof (induction as arbitrary: c n)
  case Nil
  then show ?case by simp
next
  case (Cons a rest)
  obtain t i where a: "a = (t, i)" by (cases a)
  let ?c1 = "snd (trackFailedAttempt c t e i)"
  have ti: "t < x" "\<not> holds_lock c (ipKey i)" using Cons.prems(3) a by auto
  note step = track_step[OF Cons.prems(1) ti(2) Cons.prems(2) ti(1)]
  show ?case
  proof (cases rest)
    case Nil
    with Cons.prems a step(1) step(6) show ?thesis by simp
  next
    case (Cons b rest')
    have inv: "\<forall>(t', i') \<in> set rest. t' < x \<and> \<not> holds_lock ?c1 (ipKey i')"
      using Cons.prems(3) step(5) by auto
    have "faults (trackAll ?c1 e rest) = [] \<and>
         entries (trackAll ?c1 e rest) (lockKey e) =
           Some (Lock (lockRecord e ((n + 1) + int (length rest)) (snd (last rest)) (fst (last rest))),
                 fst (last rest) + int lockoutDuration * 1000)"
      using Cons.IH[OF step(1) step(2) inv] Cons Cons.prems(5) by simp
    then show ?thesis using a Cons by (simp add: algebra_simps)
  qed
qed

lemma five_failures_lock:
  assumes "faults c = []" and "lookup_live c t1 (attemptsKey e) = None"
    and "\<forall>(t, i) \<in> set ((t1, i1) # rest). t < t1 + int attemptWindow * 1000 \<and> \<not> holds_lock c (ipKey i)"
    and "int (length ((t1, i1) # rest)) \<ge> maxAttempts"
  shows "faults (trackAll c e ((t1, i1) # rest)) = [] \<and>
         entries (trackAll c e ((t1, i1) # rest)) (lockKey e) =
           Some (Lock (lockRecord e (int (length ((t1, i1) # rest))) (snd (last ((t1, i1) # rest)))
                         (fst (last ((t1, i1) # rest)))),
                 fst (last ((t1, i1) # rest)) + int lockoutDuration * 1000)"
proof -
  let ?c1 = "snd (trackFailedAttempt c t1 e i1)"
  have i1: "\<not> holds_lock c (ipKey i1)" using assms(3) by simp
  note first = track_first [OF assms(1) i1 assms(2)]
  have rest_ne: "rest \<noteq> []" using assms(4) by (auto simp: maxAttempts_def)
  have inv: "\<forall>(t, i) \<in> set rest. t < t1 + int attemptWindow * 1000 \<and> \<not> holds_lock ?c1 (ipKey i)"
    using assms(3) first(4) by auto
  have len: "1 + int (length rest) \<ge> maxAttempts" using assms(4) by simp
  have "faults (trackAll ?c1 e rest) = [] \<and>
         entries (trackAll ?c1 e rest) (lockKey e) =
           Some (Lock (lockRecord e (1 + int (length rest)) (snd (last rest)) (fst (last rest))),
                 fst (last rest) + int lockoutDuration * 1000)"
    by (rule trackAll_locks [OF first(1) first(2) inv rest_ne len])
  then show ?thesis using rest_ne by (simp add: algebra_simps)
qed

text \<open>
  C2. With a healthy store: after five (or more) failures tracked for a non-empty email,
  the first one finding no live counter and all of them falling inside the attempt window
  opened by the first, the store holds a lock record for the email whose \<^verbatim>\<open>lockedUntil\<close> is
  the time of the last failure plus the lockout duration, live for that whole duration.
  And in any state in which a lock record for the email is live and the cache answers,
  the login route ends at the gate with status 429 and the lock body, whatever the
  password, and the credential directory is asked for no password check.
\<close>

theorem C2_five_failures_lock_then_gate_rejects:
  assumes "faults c = []" and "e \<noteq> []"
    and "lookup_live c t1 (attemptsKey e) = None"
    and "\<forall>(t, i) \<in> set ((t1, i1) # rest). t < t1 + int attemptWindow * 1000 \<and> \<not> holds_lock c (ipKey i)"
    and "int (length ((t1, i1) # rest)) \<ge> maxAttempts"
  shows "(\<forall>now. fst (last ((t1, i1) # rest)) \<le> now \<and>
                now < fst (last ((t1, i1) # rest)) + int lockoutDuration * 1000 \<longrightarrow>
            (\<exists>d. lookup_live (trackAll c e ((t1, i1) # rest)) now (lockKey e) = Some (Lock d) \<and>
                 lockedUntil d = fst (last ((t1, i1) # rest)) + int lockoutDuration * 1000) \<and>
            \<not> next_fails (trackAll c e ((t1, i1) # rest))) \<and>
         (\<forall>w now req d. body_email req = Some e \<and> \<not> next_fails (cache w) \<and>
                lookup_live (cache w) now (lockKey e) = Some (Lock d) \<longrightarrow>
            (\<exists>m. fst (loginRoute w now req) =
                    Responded \<lparr> status = 429, success = False,
                                json = AccountLockedBody (Some (lockReason d)) m \<rparr> \<and> m \<ge> 1) \<and>
            signInLog (directory (snd (loginRoute w now req))) = signInLog (directory w))"
proof (intro conjI allI impI)
  note locked = five_failures_lock [OF assms(1) assms(3) assms(4) assms(5)]
  fix now :: int
  assume "fst (last ((t1, i1) # rest)) \<le> now \<and>
          now < fst (last ((t1, i1) # rest)) + int lockoutDuration * 1000"
  then show "\<exists>d. lookup_live (trackAll c e ((t1, i1) # rest)) now (lockKey e) = Some (Lock d) \<and>
                 lockedUntil d = fst (last ((t1, i1) # rest)) + int lockoutDuration * 1000"
    using locked by (simp add: lookup_live_def lockRecord_def)
  show "\<not> next_fails (trackAll c e ((t1, i1) # rest))"
    using locked by (simp add: healthy_simps)
next
  fix w :: world and now :: int and req :: request and d :: lock_data
  assume h: "body_email req = Some e \<and> \<not> next_fails (cache w) \<and>
             lookup_live (cache w) now (lockKey e) = Some (Lock d)"
  have gate: "checkLoginAttempts (cache w) now req =
     (GateRespond \<lparr> status = 429, success = False,
         json = AccountLockedBody (Some (lockReason d))
                  (if remainingTime (lockedUntil d) now > 0 then remainingTime (lockedUntil d) now else 1) \<rparr>,
      consume (cache w))"
    using gate_locked [of req e "cache w" now d] h assms(2) by blast
  show "\<exists>m. fst (loginRoute w now req) =
                    Responded \<lparr> status = 429, success = False,
                                json = AccountLockedBody (Some (lockReason d)) m \<rparr> \<and> m \<ge> 1"
    using route_respond [OF gate] by auto
  show "signInLog (directory (snd (loginRoute w now req))) = signInLog (directory w)"
    using route_keeps_sign_in_log_on_reject [OF gate] .
qed

subsection \<open>Evaluating the sample runs\<close>

lemma failures_simps:
  "failures 2 = [(0, ''10.0.0.1''), (1000, ''10.0.0.1'')]"
  "failures 5 = [(0, ''10.0.0.1''), (1000, ''10.0.0.1''), (2000, ''10.0.0.1''), (3000, ''10.0.0.1''),
                 (4000, ''10.0.0.1'')]"
  by (simp_all add: failures_def upt_rec)

lemmas eval_guard =
  trackFailedAttempt_def cache_incr_def cache_set_def cache_get_def cache_del_def lockAccount_def
  next_fails_def consume_def lookup_live_def holds_lock_def empty_cache_def maxAttempts_def
  attemptWindow_def lockoutDuration_def attemptsKey_def ipKey_def lockKey_def show_int_def digit_char_def
  lockRecord_def

lemma tracked_five:
  "lookup_live (trackAll empty_cache ''a@x.com'' (failures 5)) 5000 (lockKey ''a@x.com'') =
     Some (Lock \<lparr> lockEmail = ''a@x.com'', lockAttempts = 5, lockIp = ''10.0.0.1'', lockedAt = 4000,
                  lockedUntil = 904000, lockReason = ''5 failed login attempts'' \<rparr>)"
  "faults (trackAll empty_cache ''a@x.com'' (failures 5)) = []"
  by (simp_all add: failures_simps eval_guard)

lemma login_cache: "cache (snd (login w now req)) = cache w"
  by (simp add: login_def Let_def signInWithPassword_def update_last_seen_def findById_def
           split: dir_status.splits option.splits list.splits sum.splits sign_in.splits prod.splits)

lemma loginRoute_keeps_entries: "entries (cache (snd (loginRoute w now req))) = entries (cache w)"
proof (cases "checkLoginAttempts (cache w) now req")
  case (Pair out c)
  have c: "entries c = entries (cache w)" using gate_keeps_entries [of "cache w" now req] Pair by simp
  show ?thesis using Pair c by (cases out) (simp_all add: loginRoute_def login_cache)
qed

lemmas eval_route =
  loginRoute_def checkLoginAttempts_def isAccountLocked_def ipAttemptsReach_def truthy_def login_def
  signInWithPassword_def findById_def update_last_seen_def sample_world_def sample_directory_def
  sample_user_def sample_profile_def sample_request_def remainingTime_def

theorem C2_five_failures_lock_then_gate_rejects_witness:
  "faults empty_cache = [] \<and>
   lookup_live empty_cache 0 (attemptsKey ''a@x.com'') = None \<and>
   int (length (failures 5)) \<ge> maxAttempts \<and>
   (\<exists>d. lookup_live (trackAll empty_cache ''a@x.com'' (failures 5)) 5000 (lockKey ''a@x.com'') = Some (Lock d) \<and>
        lockedUntil d = 904000) \<and>
   fst (loginRoute (sample_world [sample_profile ''active''] (trackAll empty_cache ''a@x.com'' (failures 5)))
          5000 (sample_request (Some ''a@x.com'') ''secret'')) =
     Responded \<lparr> status = 429, success = False,
                 json = AccountLockedBody (Some ''5 failed login attempts'') 15 \<rparr> \<and>
   signInLog (directory (snd (loginRoute
       (sample_world [sample_profile ''active''] (trackAll empty_cache ''a@x.com'' (failures 5)))
          5000 (sample_request (Some ''a@x.com'') ''secret'')))) = []"
proof -
  have hyps: "faults empty_cache = []" "''a@x.com'' \<noteq> []"
    "lookup_live empty_cache 0 (attemptsKey ''a@x.com'') = None"
    "\<forall>(t, i) \<in> set ((0, ''10.0.0.1'') # tl (failures 5)).
        t < 0 + int attemptWindow * 1000 \<and> \<not> holds_lock empty_cache (ipKey i)"
    "int (length ((0, ''10.0.0.1'') # tl (failures 5))) \<ge> maxAttempts"
    by (simp_all add: failures_simps empty_cache_def lookup_live_def holds_lock_def attemptWindow_def
          maxAttempts_def)
  have f: "(0, ''10.0.0.1'') # tl (failures 5) = failures 5" by (simp add: failures_simps)
  note inst = C2_five_failures_lock_then_gate_rejects [OF hyps, unfolded f]
  have live: "\<exists>d. lookup_live (trackAll empty_cache ''a@x.com'' (failures 5)) 5000 (lockKey ''a@x.com'') = Some (Lock d) \<and>
        lockedUntil d = 904000"
    using inst [THEN conjunct1, rule_format, of 5000]
    by (simp add: failures_simps lockoutDuration_def)
  have route: "fst (loginRoute (sample_world [sample_profile ''active''] (trackAll empty_cache ''a@x.com'' (failures 5)))
          5000 (sample_request (Some ''a@x.com'') ''secret'')) =
     Responded \<lparr> status = 429, success = False,
                 json = AccountLockedBody (Some ''5 failed login attempts'') 15 \<rparr>"
    by (simp add: eval_route cache_get_def next_fails_def consume_def tracked_five)
  have log: "signInLog (directory (snd (loginRoute
       (sample_world [sample_profile ''active''] (trackAll empty_cache ''a@x.com'' (failures 5)))
          5000 (sample_request (Some ''a@x.com'') ''secret'')))) = []"
    using inst [THEN conjunct2, rule_format,
        of "sample_request (Some ''a@x.com'') ''secret''"
           "sample_world [sample_profile ''active''] (trackAll empty_cache ''a@x.com'' (failures 5))"
           5000]
      tracked_five
    by (simp add: sample_request_def sample_world_def sample_directory_def next_fails_def)
  show ?thesis using hyps(1,3) live route log by (simp add: failures_simps maxAttempts_def)
qed

text \<open>
  C1. Four rejected logins against an empty, healthy cache: a wrong password, a missing
  profile, a suspended profile, a profile pending verification. The gate has attached the
  tracking hooks in each case; the controller answers 401, 401, 403, 403 and returns
  without calling them: afterwards neither the email counter nor the IP counter exists.
\<close>

theorem C1_rejections_are_not_tracked:
  "fst (checkLoginAttempts empty_cache 0 (sample_request (Some ''a@x.com'') ''wrong'')) =
     GateNext ((sample_request (Some ''a@x.com'') ''wrong'')\<lparr>loginTracking := Some (''a@x.com'', ''10.0.0.1'')\<rparr>) \<and>
   fst (loginRoute (sample_world [sample_profile ''active''] empty_cache) 0
          (sample_request (Some ''a@x.com'') ''wrong'')) =
     Responded \<lparr> status = 401, success = False, json = ErrorBody ''Invalid email or password'' \<rparr> \<and>
   fst (loginRoute (sample_world [] empty_cache) 0 (sample_request (Some ''a@x.com'') ''secret'')) =
     Responded \<lparr> status = 401, success = False,
                 json = ErrorBody ''Invalid credentials. Profile not found.'' \<rparr> \<and>
   fst (loginRoute (sample_world [sample_profile ''suspended''] empty_cache) 0
          (sample_request (Some ''a@x.com'') ''secret'')) =
     Responded \<lparr> status = 403, success = False, json = ErrorBody ''Your account has been suspended.'' \<rparr> \<and>
   fst (loginRoute (sample_world [sample_profile ''pending_verification''] empty_cache) 0
          (sample_request (Some ''a@x.com'') ''secret'')) =
     Responded \<lparr> status = 403, success = False,
                 json = ErrorBody ''Please verify your email before logging in.'' \<rparr> \<and>
   lookup_live (cache (snd (loginRoute (sample_world [sample_profile ''active''] empty_cache) 0
          (sample_request (Some ''a@x.com'') ''wrong'')))) 0 (attemptsKey ''a@x.com'') = None \<and>
   lookup_live (cache (snd (loginRoute (sample_world [sample_profile ''active''] empty_cache) 0
          (sample_request (Some ''a@x.com'') ''wrong'')))) 0 (ipKey ''10.0.0.1'') = None \<and>
   lookup_live (cache (snd (loginRoute (sample_world [] empty_cache) 0
          (sample_request (Some ''a@x.com'') ''secret'')))) 0 (attemptsKey ''a@x.com'') = None \<and>
   lookup_live (cache (snd (loginRoute (sample_world [sample_profile ''suspended''] empty_cache) 0
          (sample_request (Some ''a@x.com'') ''secret'')))) 0 (attemptsKey ''a@x.com'') = None \<and>
   lookup_live (cache (snd (loginRoute (sample_world [sample_profile ''pending_verification''] empty_cache) 0
          (sample_request (Some ''a@x.com'') ''secret'')))) 0 (attemptsKey ''a@x.com'') = None \<and>
   attempts (fst (trackFailedAttempt empty_cache 0 ''a@x.com'' ''10.0.0.1'')) = 1"
  by (simp add: eval_route eval_guard)

text \<open>
  C3. Two failures are tracked for the sample email and address; then a login with the
  right password succeeds with status 200. The controller returns without calling the
  \<^verbatim>\<open>clearAttempts\<close> hook: both counters still read 2 afterwards, and the next tracked
  failure is counted as the third.
\<close>

theorem C3_success_does_not_clear:
  "fst (loginRoute (sample_world [sample_profile ''active''] (trackAll empty_cache ''a@x.com'' (failures 2)))
          2000 (sample_request (Some ''a@x.com'') ''secret'')) =
     Responded \<lparr> status = 200, success = True,
                 json = LoginBody ''Login successful'' (sample_profile ''active'')
                          (SignedToken ''u1'' ''a@x.com'' ''learner'') \<rparr> \<and>
   lookup_live (cache (snd (loginRoute
       (sample_world [sample_profile ''active''] (trackAll empty_cache ''a@x.com'' (failures 2)))
          2000 (sample_request (Some ''a@x.com'') ''secret'')))) 2000 (attemptsKey ''a@x.com'') = Some (Num 2) \<and>
   lookup_live (cache (snd (loginRoute
       (sample_world [sample_profile ''active''] (trackAll empty_cache ''a@x.com'' (failures 2)))
          2000 (sample_request (Some ''a@x.com'') ''secret'')))) 2000 (ipKey ''10.0.0.1'') = Some (Num 2) \<and>
   attempts (fst (trackFailedAttempt (cache (snd (loginRoute
       (sample_world [sample_profile ''active''] (trackAll empty_cache ''a@x.com'' (failures 2)))
          2000 (sample_request (Some ''a@x.com'') ''secret'')))) 3000 ''a@x.com'' ''10.0.0.1'')) = 3 \<and>
   attempts (fst (trackFailedAttempt
       (clearAttempts (trackAll empty_cache ''a@x.com'' (failures 2)) ''a@x.com'' ''10.0.0.1'')
          3000 ''a@x.com'' ''10.0.0.1'')) = 1"
  by (simp add: eval_route eval_guard failures_simps clearAttempts_def Let_def)

subsection \<open>The Google callback\<close>

lemma googleVerify_lookup_throws:
  "emails gp = Some (addr # others) \<Longrightarrow> googleVerify w now gp = (DoneError TypeError, w)"
  by (simp add: googleVerify_def getUserByEmail_def)

text \<open>
  C4. The directory holds an identity for the sample email and the profile table holds no
  row for it. The Google callback for that email stops at its first call, the lookup of
  the identity by email, which throws; the callback ends in \<^verbatim>\<open>done(error, false)\<close>: it hands
  on no profile and inserts no row, the first time and the second time. For an email
  without an identity it is the same: no identity and no row are created.
\<close>

theorem C4_reconciliation_never_reaches_the_stores:
  "find (\<lambda>u. userEmail u = ''a@x.com'') (users (directory (sample_world [] empty_cache))) =
     Some sample_user \<and>
   filter (\<lambda>p. pid p = uid sample_user) (rows (profiles (sample_world [] empty_cache))) = [] \<and>
   googleVerify (sample_world [] empty_cache) 100 (sample_google ''a@x.com'') =
     (DoneError TypeError, sample_world [] empty_cache) \<and>
   rows (profiles (snd (googleVerify (sample_world [] empty_cache) 100 (sample_google ''a@x.com'')))) = [] \<and>
   googleVerify (snd (googleVerify (sample_world [] empty_cache) 100 (sample_google ''a@x.com''))) 200
       (sample_google ''a@x.com'') =
     (DoneError TypeError, sample_world [] empty_cache) \<and>
   googleVerify (sample_world [] empty_cache) 100 (sample_google ''b@x.com'') =
     (DoneError TypeError, sample_world [] empty_cache) \<and>
   users (directory (snd (googleVerify (sample_world [] empty_cache) 100 (sample_google ''b@x.com'')))) =
     [sample_user]"
  by (simp add: googleVerify_def getUserByEmail_def sample_google_def sample_world_def
        sample_directory_def sample_user_def)

end
